theory Spec2Isabelle
  imports Main "HOL-Library.Sublist"
begin

section \<open>gossh: a web gateway to SSH sessions and file transfer\<close>

text \<open>
  A shallow embedding of \<^verbatim>\<open>ssh.go\<close> and of the Go file of the HTTP handlers
  (\<^verbatim>\<open>downloadHandler\<close>, \<^verbatim>\<open>indexHandler\<close>, \<^verbatim>\<open>decryptAccess\<close>, \<^verbatim>\<open>wsHandler\<close>). Go strings and byte slices are lists of bytes (\<open>string\<close>). A Go
  \<^verbatim>\<open>error\<close> result is \<open>string option\<close> (\<open>None\<close> is \<^verbatim>\<open>nil\<close>, \<open>Some m\<close> an error whose text
  is \<open>m\<close>) where a library call returns it, and a value of the datatype \<open>error\<close> where this
  program builds it with \<^verbatim>\<open>fmt.Errorf\<close>. Every call this program makes on the websocket, on
  the SSH client and on the HTTP response is an \<open>event\<close>; a function returns the list of
  the events it performs, in order. What the libraries answer (\<^verbatim>\<open>ssh.ParsePrivateKey\<close>,
  \<^verbatim>\<open>ssh.Dial\<close>, \<^verbatim>\<open>base64.StdEncoding.DecodeString\<close>, ...) is not code of this program: it is
  read from a record \<open>env\<close> of parameters. Calls of \<^verbatim>\<open>log.Printf\<close> are left out.
\<close>

subsection \<open>Data\<close>

type_synonym bytes = string

text \<open>\<^verbatim>\<open>WSMessage\<close>: Go's \<^verbatim>\<open>int\<close> and \<^verbatim>\<open>int64\<close> fields are only passed on, never computed with.\<close>

record WSMessage =
  Type :: string
  Data :: string
  Cols :: int
  Rows :: int
  Filename :: string
  Size :: int

record UploadResponse =
  rType :: string
  Success :: bool
  Path :: string
  Error :: string

record SSHCredentials =
  Host :: string
  User :: string
  Password :: string
  PrivateKey :: string

datatype 's auth_method = AuthPassword string | AuthPublicKeys 's

datatype ws_kind = TextMessage | BinaryMessage

datatype 's event =
    WsWriteMessage ws_kind bytes
  | WsClose
  | Dial string string "'s auth_method list"
  | ConnClose
  | NewSession
  | SessionClose
  | RequestPty string int int
  | StdinPipe
  | StdoutPipe
  | StderrPipe
  | Shell
  | Start string
  | StdinWrite bytes
  | StdinClose
  | Wait
  | WindowChange int int
  | GoHandleFileUpload WSMessage
  | WsWriteJSON UploadResponse
  | SetHeader string string
  | ResponseWrite bytes
  | HttpError string nat

datatype error =
    AccessDenied
  | ParseKeyFailed string
  | ConnectFailed string
  | CreateSessionFailed string
  | StdinPipeFailed string
  | StdoutPipeFailed string
  | StderrPipeFailed string
  | StartFailed string
  | WriteFailed string
  | StreamFailed string
  | CommandFailed string bytes

datatype ws_read = ReadError | Message "WSMessage option"

text \<open>
  The answers of the libraries: one field for each call whose result the program tests.
  \<open>decodeString\<close> is \<^verbatim>\<open>base64.StdEncoding.DecodeString\<close>; \<open>decodeStringBytes\<close> is the bytes it
  returns beside an error, which \<^verbatim>\<open>wsHandler\<close> keeps where it drops the error.
\<close>

record 's env =
  parsePrivateKey :: "bytes \<Rightarrow> string + 's"
  dialErr :: "string \<Rightarrow> string \<Rightarrow> 's auth_method list \<Rightarrow> string option"
  newSessionErr :: "string option"
  requestPtyErr :: "string option"
  stdinPipeErr :: "string option"
  stdoutPipeErr :: "string option"
  stderrPipeErr :: "string option"
  shellErr :: "string option"
  startErr :: "string \<Rightarrow> string option"
  stdinWriteErr :: "bytes \<Rightarrow> string option"
  waitErr :: "string option"
  stderrData :: bytes
  stdoutChunks :: "bytes list"
  responseWriteErr :: "bytes \<Rightarrow> string option"
  decodeString :: "string \<Rightarrow> string + bytes"
  decodeStringBytes :: "string \<Rightarrow> bytes"
  filepathBase :: "string \<Rightarrow> string"

definition squote :: char where
  "squote = CHR 0x27"

definition dquote :: char where
  "dquote = CHR 0x22"

definition crlf :: string where
  "crlf = [CHR 0x0D, CHR 0x0A]"

subsection \<open>The connection establisher\<close>

text \<open>
  \<^verbatim>\<open>containsPort\<close> walks the host from its last byte to its first: a colon answers
  true, a closing bracket answers false, the start of the string answers false.
\<close>

fun containsPort_from :: "string \<Rightarrow> bool" where
  "containsPort_from [] = False"
| "containsPort_from (c # cs) =
     (if c = CHR '':'' then True
      else if c = CHR '']'' then False
      else containsPort_from cs)"

definition containsPort :: "string \<Rightarrow> bool" where
  "containsPort host = containsPort_from (rev host)"

text \<open>The block \<^verbatim>\<open>if !containsPort(host) { host = host + ":22" }\<close> of the three callers.\<close>

definition dialAddress :: "string \<Rightarrow> string" where
  "dialAddress host = (if \<not> containsPort host then host @ '':22'' else host)"

text \<open>
  The block that fills \<^verbatim>\<open>config.Auth\<close>, the same in \<^verbatim>\<open>handleSSHConnection\<close>,
  \<^verbatim>\<open>uploadFileViaSSH\<close> and \<^verbatim>\<open>downloadFileViaSSH\<close>: \<open>Inl e\<close> is the error of
  \<^verbatim>\<open>ssh.ParsePrivateKey\<close>, on which each caller returns.
\<close>

definition authMethods :: "'s env \<Rightarrow> string \<Rightarrow> bytes \<Rightarrow> string + 's auth_method list" where
  "authMethods env password privateKey =
     (let auth = (if password \<noteq> [] then [AuthPassword password] else []) in
      if length privateKey > 0 then
        (case parsePrivateKey env privateKey of
           Inl e \<Rightarrow> Inl e
         | Inr signer \<Rightarrow> Inr (auth @ [AuthPublicKeys signer]))
      else Inr auth)"

subsection \<open>Download\<close>

definition allowedPaths :: "string list" where
  "allowedPaths = [''/home/'', ''/opt/'', ''/tmp/'']"

text \<open>The loop of \<^verbatim>\<open>downloadFileViaSSH\<close> over the prefixes, with its slice comparison.\<close>

fun isAllowed :: "string list \<Rightarrow> string \<Rightarrow> bool" where
  "isAllowed [] remotePath = False"
| "isAllowed (p # ps) remotePath =
     (if length remotePath \<ge> length p \<and> take (length p) remotePath = p then True
      else isAllowed ps remotePath)"

text \<open>The loop of \<^verbatim>\<open>downloadHandler\<close>, with \<^verbatim>\<open>strings.HasPrefix\<close>.\<close>

fun isAllowed_handler :: "string list \<Rightarrow> string \<Rightarrow> bool" where
  "isAllowed_handler [] remotePath = False"
| "isAllowed_handler (p # ps) remotePath =
     (if prefix p remotePath then True else isAllowed_handler ps remotePath)"

text \<open>
  \<^verbatim>\<open>io.Copy(w, stdoutPipe)\<close>: each chunk read is written, until a write fails. The chunks
  are \<open>stdoutChunks\<close>, what the remote command prints; reading them does not fail.
\<close>

fun copyToResponse :: "'s env \<Rightarrow> bytes list \<Rightarrow> 's event list \<times> string option" where
  "copyToResponse env [] = ([], None)"
| "copyToResponse env (c # cs) =
     (case responseWriteErr env c of
        Some e \<Rightarrow> ([ResponseWrite c], Some e)
      | None \<Rightarrow> (case copyToResponse env cs of (evs, r) \<Rightarrow> (ResponseWrite c # evs, r)))"

text \<open>The part of \<^verbatim>\<open>downloadFileViaSSH\<close> that runs once the session exists.\<close>

definition downloadSession :: "'s env \<Rightarrow> string \<Rightarrow> 's event list \<times> (error + string)" where
  "downloadSession env remotePath =
     (case stdoutPipeErr env of
        Some e \<Rightarrow> ([StdoutPipe], Inl (StdoutPipeFailed e))
      | None \<Rightarrow>
     (case stderrPipeErr env of
        Some e \<Rightarrow> ([StdoutPipe, StderrPipe], Inl (StderrPipeFailed e))
      | None \<Rightarrow>
     (let filename = filepathBase env remotePath;
          cmd = ''cat '' @ [squote] @ remotePath @ [squote];
          pre = [StdoutPipe, StderrPipe,
                 SetHeader ''Content-Disposition''
                   (''attachment; filename='' @ [dquote] @ filename @ [dquote]),
                 SetHeader ''Content-Type'' ''application/octet-stream'',
                 Start cmd]
      in case startErr env cmd of
        Some e \<Rightarrow> (pre, Inl (StartFailed e))
      | None \<Rightarrow>
     (case copyToResponse env (stdoutChunks env) of
        (evs, Some e) \<Rightarrow> (pre @ evs, Inl (StreamFailed e))
      | (evs, None) \<Rightarrow>
     (case waitErr env of
        Some e \<Rightarrow> (pre @ evs @ [Wait], Inl (CommandFailed e (stderrData env)))
      | None \<Rightarrow> (pre @ evs @ [Wait], Inr filename))))))"

definition downloadFileViaSSH ::
  "'s env \<Rightarrow> string \<Rightarrow> string \<Rightarrow> string \<Rightarrow> string \<Rightarrow> bytes \<Rightarrow> 's event list \<times> (error + string)" where
  "downloadFileViaSSH env remotePath host user password privateKey =
     (if \<not> isAllowed allowedPaths remotePath then ([], Inl AccessDenied)
      else case authMethods env password privateKey of
        Inl e \<Rightarrow> ([], Inl (ParseKeyFailed e))
      | Inr auth \<Rightarrow>
     (let addr = dialAddress host in
      case dialErr env addr user auth of
        Some e \<Rightarrow> ([Dial addr user auth], Inl (ConnectFailed e))
      | None \<Rightarrow>
     (case newSessionErr env of
        Some e \<Rightarrow> ([Dial addr user auth, NewSession, ConnClose], Inl (CreateSessionFailed e))
      | None \<Rightarrow>
     (case downloadSession env remotePath of
        (evs, r) \<Rightarrow> ([Dial addr user auth, NewSession] @ evs @ [SessionClose, ConnClose], r)))))"

text \<open>\<^verbatim>\<open>err.Error()\<close> for the errors that \<^verbatim>\<open>downloadFileViaSSH\<close> builds.\<close>

fun errorString :: "error \<Rightarrow> string" where
  "errorString AccessDenied =
     ''access denied: downloads are only allowed from /home, /opt, and /tmp directories''"
| "errorString (ParseKeyFailed e) = ''failed to parse private key: '' @ e"
| "errorString (ConnectFailed e) = ''failed to connect to SSH server: '' @ e"
| "errorString (CreateSessionFailed e) = ''failed to create download session: '' @ e"
| "errorString (StdinPipeFailed e) = ''failed to get stdin pipe: '' @ e"
| "errorString (StdoutPipeFailed e) = ''failed to get stdout pipe: '' @ e"
| "errorString (StderrPipeFailed e) = ''failed to get stderr pipe: '' @ e"
| "errorString (StartFailed e) = ''failed to start download command: '' @ e"
| "errorString (WriteFailed e) = ''failed to write file data: '' @ e"
| "errorString (StreamFailed e) = ''failed to stream file data: '' @ e"
| "errorString (CommandFailed e d) = ''failed to download file: '' @ e @ '' - '' @ d"

definition accessDeniedBody :: string where
  "accessDeniedBody =
     ''Access denied: Downloads are only allowed from /home, /opt, and /tmp directories''"

text \<open>
  \<^verbatim>\<open>downloadHandler\<close>: \<open>q\<close> is \<^verbatim>\<open>r.URL.Query().Get\<close>, which answers the empty string for a
  parameter that is absent.
\<close>

definition downloadHandler :: "'s env \<Rightarrow> (string \<Rightarrow> string) \<Rightarrow> 's event list" where
  "downloadHandler env q =
     (let host = q ''host''; user = q ''user''; password = q ''password'';
          privateKeyB64 = q ''privatekey''; remotePath = q ''path''
      in if host = [] \<or> user = [] \<or> remotePath = [] then
           [HttpError ''Missing required parameters'' 400]
         else if \<not> isAllowed_handler allowedPaths remotePath then
           [HttpError accessDeniedBody 403]
         else
           (case (if privateKeyB64 \<noteq> [] then decodeString env privateKeyB64 else Inr []) of
              Inl e \<Rightarrow> [HttpError ''Invalid private key encoding'' 400]
            | Inr privateKey \<Rightarrow>
                (case downloadFileViaSSH env remotePath host user password privateKey of
                   (evs, Inl err) \<Rightarrow>
                     evs @ [HttpError (''Download failed: '' @ errorString err) 500]
                 | (evs, Inr filename) \<Rightarrow>
                     evs @ [SetHeader ''Content-Disposition''
                              (''attachment; filename='' @ [dquote] @ filename @ [dquote]),
                            SetHeader ''Content-Type'' ''application/octet-stream''])))"

text \<open>An event is remote connection activity when it is a call on the SSH client.\<close>

fun is_remote :: "'s event \<Rightarrow> bool" where
  "is_remote (WsWriteMessage k b) = False"
| "is_remote WsClose = False"
| "is_remote (GoHandleFileUpload m) = False"
| "is_remote (WsWriteJSON r) = False"
| "is_remote (SetHeader k v) = False"
| "is_remote (ResponseWrite b) = False"
| "is_remote (HttpError m c) = False"
| "is_remote e = True"

subsection \<open>The session bridge\<close>

text \<open>
  \<^verbatim>\<open>handleSSHConnection\<close> up to the start of the shell. The result says whether the shell
  started; when it did, the three goroutines run (the control one is \<open>controlWorker\<close>
  below) and the deferred closes have not run yet.
\<close>

definition sessionSetup :: "'s env \<Rightarrow> 's event list \<times> bool" where
  "sessionSetup env =
     (case requestPtyErr env of
        Some e \<Rightarrow>
          ([RequestPty ''xterm-256color'' 40 80,
            WsWriteMessage TextMessage (''Error: Failed to request PTY: '' @ e @ crlf)], False)
      | None \<Rightarrow>
     (case stdinPipeErr env of
        Some e \<Rightarrow> ([RequestPty ''xterm-256color'' 40 80, StdinPipe], False)
      | None \<Rightarrow>
     (case stdoutPipeErr env of
        Some e \<Rightarrow> ([RequestPty ''xterm-256color'' 40 80, StdinPipe, StdoutPipe], False)
      | None \<Rightarrow>
     (case stderrPipeErr env of
        Some e \<Rightarrow>
          ([RequestPty ''xterm-256color'' 40 80, StdinPipe, StdoutPipe, StderrPipe], False)
      | None \<Rightarrow>
     (case shellErr env of
        Some e \<Rightarrow>
          ([RequestPty ''xterm-256color'' 40 80, StdinPipe, StdoutPipe, StderrPipe, Shell,
            WsWriteMessage TextMessage (''Error: Failed to start shell: '' @ e @ crlf)], False)
      | None \<Rightarrow>
          ([RequestPty ''xterm-256color'' 40 80, StdinPipe, StdoutPipe, StderrPipe, Shell],
           True))))))"

definition handleSSHConnection ::
  "'s env \<Rightarrow> string \<Rightarrow> string \<Rightarrow> string \<Rightarrow> bytes \<Rightarrow> 's event list \<times> bool" where
  "handleSSHConnection env host user password privateKey =
     (case authMethods env password privateKey of
        Inl e \<Rightarrow>
          ([WsWriteMessage TextMessage (''Error: Failed to parse private key: '' @ e @ crlf)],
           False)
      | Inr auth \<Rightarrow>
     (let addr = dialAddress host in
      case dialErr env addr user auth of
        Some e \<Rightarrow>
          ([Dial addr user auth,
            WsWriteMessage TextMessage (''Error: Failed to connect: '' @ e @ crlf)], False)
      | None \<Rightarrow>
     (case newSessionErr env of
        Some e \<Rightarrow>
          ([Dial addr user auth, NewSession,
            WsWriteMessage TextMessage (''Error: Failed to create session: '' @ e @ crlf),
            ConnClose], False)
      | None \<Rightarrow>
     (case sessionSetup env of
        (evs, True) \<Rightarrow> ([Dial addr user auth, NewSession] @ evs, True)
      | (evs, False) \<Rightarrow>
          ([Dial addr user auth, NewSession] @ evs @ [SessionClose, ConnClose], False)))))"

text \<open>
  The goroutine that reads the websocket. Its input is the list of the results of
  \<^verbatim>\<open>wsConn.ReadMessage\<close> followed by \<^verbatim>\<open>json.Unmarshal\<close>: a read error, a frame that does
  not decode (\<open>Message None\<close>) or a decoded message. At the end of the list the goroutine
  is waiting for the next frame.
\<close>

fun controlWorker :: "'s env \<Rightarrow> ws_read list \<Rightarrow> 's event list" where
  "controlWorker env [] = []"
| "controlWorker env (ReadError # rest) = [StdinClose]"
| "controlWorker env (Message None # rest) = controlWorker env rest"
| "controlWorker env (Message (Some msg) # rest) =
     (if Type msg = ''input'' then
        (case stdinWriteErr env (Data msg) of
           Some e \<Rightarrow> [StdinWrite (Data msg)]
         | None \<Rightarrow> StdinWrite (Data msg) # controlWorker env rest)
      else if Type msg = ''resize'' then
        WindowChange (Rows msg) (Cols msg) # controlWorker env rest
      else if Type msg = ''upload'' then
        GoHandleFileUpload msg # controlWorker env rest
      else controlWorker env rest)"

text \<open>
  \<^verbatim>\<open>Session.RequestPty\<close> and \<^verbatim>\<open>Session.WindowChange\<close> of the SSH library take Go \<^verbatim>\<open>int\<close>s
  and send each as \<^verbatim>\<open>uint32(h)\<close>, \<^verbatim>\<open>uint32(w)\<close>: the conversion keeps the low 32 bits.
\<close>

definition uint32 :: "int \<Rightarrow> int" where
  "uint32 x = x mod 2 ^ 32"

text \<open>
  The geometry of the remote pseudo-terminal after a run: the (rows, cols) sent by the
  last \<^verbatim>\<open>RequestPty\<close> or \<^verbatim>\<open>WindowChange\<close> call, narrowed as the library sends them; none
  before the first.
\<close>

fun geometry_step :: "(int \<times> int) option \<Rightarrow> 's event \<Rightarrow> (int \<times> int) option" where
  "geometry_step g (RequestPty t h w) = Some (uint32 h, uint32 w)"
| "geometry_step g (WindowChange h w) = Some (uint32 h, uint32 w)"
| "geometry_step g e = g"

definition geometry :: "'s event list \<Rightarrow> (int \<times> int) option" where
  "geometry evs = foldl geometry_step None evs"

subsection \<open>Upload\<close>

text \<open>
  \<^verbatim>\<open>sendUploadResponse\<close>: the response is marshalled to JSON and written as one text
  frame; the event keeps the record.
\<close>

definition sendUploadResponse :: "UploadResponse \<Rightarrow> 's event list" where
  "sendUploadResponse response = [WsWriteJSON response]"

definition failed :: "string \<Rightarrow> UploadResponse" where
  "failed e = \<lparr>rType = ''upload_response'', Success = False, Path = [], Error = e\<rparr>"

definition uploadCommand :: "string \<Rightarrow> string" where
  "uploadCommand remotePath = ''cat > '' @ [squote] @ remotePath @ [squote]"

text \<open>The part of \<^verbatim>\<open>handleFileUpload\<close> that runs once the upload session exists.\<close>

definition handleFileUpload_session :: "'s env \<Rightarrow> bytes \<Rightarrow> string \<Rightarrow> 's event list" where
  "handleFileUpload_session env fileData remotePath =
     (case stdinPipeErr env of
        Some e \<Rightarrow> StdinPipe # sendUploadResponse (failed (''Failed to get stdin pipe: '' @ e))
      | None \<Rightarrow>
     (case stderrPipeErr env of
        Some e \<Rightarrow>
          [StdinPipe, StderrPipe]
            @ sendUploadResponse (failed (''Failed to get stderr pipe: '' @ e))
      | None \<Rightarrow>
     (case startErr env (uploadCommand remotePath) of
        Some e \<Rightarrow>
          [StdinPipe, StderrPipe, Start (uploadCommand remotePath)]
            @ sendUploadResponse (failed (''Failed to start upload command: '' @ e))
      | None \<Rightarrow>
     (case stdinWriteErr env fileData of
        Some e \<Rightarrow>
          [StdinPipe, StderrPipe, Start (uploadCommand remotePath), StdinWrite fileData]
            @ sendUploadResponse (failed (''Failed to write file data: '' @ e))
      | None \<Rightarrow>
     (case waitErr env of
        Some e \<Rightarrow>
          [StdinPipe, StderrPipe, Start (uploadCommand remotePath), StdinWrite fileData,
           StdinClose, Wait]
            @ sendUploadResponse
                (failed (''Failed to upload file: '' @ e @ '' - '' @ stderrData env))
      | None \<Rightarrow>
          [StdinPipe, StderrPipe, Start (uploadCommand remotePath), StdinWrite fileData,
           StdinClose, Wait]
            @ sendUploadResponse
                \<lparr>rType = ''upload_response'', Success = True, Path = remotePath,
                 Error = []\<rparr>)))))"

definition handleFileUpload :: "'s env \<Rightarrow> WSMessage \<Rightarrow> 's event list" where
  "handleFileUpload env msg =
     (case decodeString env (Data msg) of
        Inl e \<Rightarrow> sendUploadResponse (failed (''Failed to decode file data: '' @ e))
      | Inr fileData \<Rightarrow>
     (let remotePath = ''/tmp/'' @ Filename msg in
      case newSessionErr env of
        Some e \<Rightarrow>
          NewSession # sendUploadResponse (failed (''Failed to create upload session: '' @ e))
      | None \<Rightarrow>
          NewSession # handleFileUpload_session env fileData remotePath @ [SessionClose]))"

text \<open>
  \<^verbatim>\<open>io.Copy(stdinPipe, file)\<close>: the file is read chunk by chunk, each chunk is written
  before the next is read, until a write fails. The file is the list of its chunks;
  reading them does not fail.
\<close>

fun copyToStdin :: "'s env \<Rightarrow> bytes list \<Rightarrow> 's event list \<times> string option" where
  "copyToStdin env [] = ([], None)"
| "copyToStdin env (c # cs) =
     (case stdinWriteErr env c of
        Some e \<Rightarrow> ([StdinWrite c], Some e)
      | None \<Rightarrow> (case copyToStdin env cs of (evs, r) \<Rightarrow> (StdinWrite c # evs, r)))"

definition uploadSession :: "'s env \<Rightarrow> bytes list \<Rightarrow> string \<Rightarrow> 's event list \<times> (error + string)" where
  "uploadSession env file remotePath =
     (case stdinPipeErr env of
        Some e \<Rightarrow> ([StdinPipe], Inl (StdinPipeFailed e))
      | None \<Rightarrow>
     (case stderrPipeErr env of
        Some e \<Rightarrow> ([StdinPipe, StderrPipe], Inl (StderrPipeFailed e))
      | None \<Rightarrow>
     (case startErr env (uploadCommand remotePath) of
        Some e \<Rightarrow>
          ([StdinPipe, StderrPipe, Start (uploadCommand remotePath)], Inl (StartFailed e))
      | None \<Rightarrow>
     (case copyToStdin env file of
        (evs, Some e) \<Rightarrow>
          ([StdinPipe, StderrPipe, Start (uploadCommand remotePath)] @ evs,
           Inl (WriteFailed e))
      | (evs, None) \<Rightarrow>
     (case waitErr env of
        Some e \<Rightarrow>
          ([StdinPipe, StderrPipe, Start (uploadCommand remotePath)] @ evs
             @ [StdinClose, Wait],
           Inl (CommandFailed e (stderrData env)))
      | None \<Rightarrow>
          ([StdinPipe, StderrPipe, Start (uploadCommand remotePath)] @ evs
             @ [StdinClose, Wait],
           Inr remotePath))))))"

definition uploadFileViaSSH ::
  "'s env \<Rightarrow> bytes list \<Rightarrow> string \<Rightarrow> string \<Rightarrow> string \<Rightarrow> string \<Rightarrow> bytes
    \<Rightarrow> 's event list \<times> (error + string)" where
  "uploadFileViaSSH env file filename host user password privateKey =
     (case authMethods env password privateKey of
        Inl e \<Rightarrow> ([], Inl (ParseKeyFailed e))
      | Inr auth \<Rightarrow>
     (let addr = dialAddress host in
      case dialErr env addr user auth of
        Some e \<Rightarrow> ([Dial addr user auth], Inl (ConnectFailed e))
      | None \<Rightarrow>
     (let remotePath = ''/tmp/'' @ filename in
      case newSessionErr env of
        Some e \<Rightarrow> ([Dial addr user auth, NewSession, ConnClose], Inl (CreateSessionFailed e))
      | None \<Rightarrow>
     (case uploadSession env file remotePath of
        (evs, r) \<Rightarrow> ([Dial addr user auth, NewSession] @ evs @ [SessionClose, ConnClose], r)))))"

subsection \<open>The access token codec\<close>

text \<open>
  The libraries of \<^verbatim>\<open>decryptAccess\<close>: \<^verbatim>\<open>fernet.DecodeKeys\<close>, \<^verbatim>\<open>fernet.VerifyAndDecrypt\<close>
  (called with a time-to-live of 0; \<open>None\<close> is its \<^verbatim>\<open>nil\<close>), \<^verbatim>\<open>base64.StdEncoding.DecodeString\<close>
  and \<^verbatim>\<open>url.ParseQuery\<close>, whose \<^verbatim>\<open>url.Values\<close> maps a key to the list of its values.
\<close>

record 'k codec =
  decodeKeys :: "string \<Rightarrow> string + 'k list"
  verifyAndDecrypt :: "bytes \<Rightarrow> 'k list \<Rightarrow> bytes option"
  stdDecodeString :: "string \<Rightarrow> string + bytes"
  parseQuery :: "string \<Rightarrow> string + (string \<Rightarrow> string list)"

datatype token_error =
    KeyNotConfigured
  | InvalidKey string
  | DecryptFailed
  | Base64Failed string
  | QueryFailed string

text \<open>\<^verbatim>\<open>url.Values.Get\<close>: the first value of the key, the empty string when it has none.\<close>

definition valuesGet :: "(string \<Rightarrow> string list) \<Rightarrow> string \<Rightarrow> string" where
  "valuesGet vs key = (case vs key of [] \<Rightarrow> [] | v # _ \<Rightarrow> v)"

text \<open>\<open>fernetKey\<close> is \<^verbatim>\<open>config.Security.FernetKey\<close>, read by \<^verbatim>\<open>getDefaultFernetKey\<close>.\<close>

definition decryptAccess :: "'k codec \<Rightarrow> string \<Rightarrow> string \<Rightarrow> token_error + SSHCredentials" where
  "decryptAccess lib fernetKey encrypted =
     (if fernetKey = [] then Inl KeyNotConfigured
      else case decodeKeys lib fernetKey of
        Inl e \<Rightarrow> Inl (InvalidKey e)
      | Inr key \<Rightarrow>
     (case verifyAndDecrypt lib encrypted key of
        None \<Rightarrow> Inl DecryptFailed
      | Some token_64 \<Rightarrow>
     (case stdDecodeString lib token_64 of
        Inl e \<Rightarrow> Inl (Base64Failed e)
      | Inr token \<Rightarrow>
     (case parseQuery lib token of
        Inl e \<Rightarrow> Inl (QueryFailed e)
      | Inr vs \<Rightarrow>
          Inr \<lparr>Host = valuesGet vs ''hostname'', User = valuesGet vs ''username'',
               Password = [], PrivateKey = valuesGet vs ''privatekey''\<rparr>))))"

datatype index_response = ErrorPage string nat | ExecuteTemplate string SSHCredentials

text \<open>
  \<^verbatim>\<open>indexHandler\<close>: \<open>q\<close> is \<^verbatim>\<open>r.URL.Query().Get\<close>, \<open>tmplLoaded\<close> is \<^verbatim>\<open>tmpl != nil\<close>.
\<close>

definition indexHandler ::
  "'k codec \<Rightarrow> string \<Rightarrow> bool \<Rightarrow> (string \<Rightarrow> string) \<Rightarrow> index_response" where
  "indexHandler lib fernetKey tmplLoaded q =
     (let accessParam = q ''access'' in
      if accessParam \<noteq> [] then
        (case decryptAccess lib fernetKey accessParam of
           Inl err \<Rightarrow> ErrorPage ''Invalid access token'' 400
         | Inr creds \<Rightarrow>
             if tmplLoaded then ExecuteTemplate ''terminal.html'' creds
             else ErrorPage ''Templates not loaded'' 500)
      else if tmplLoaded then
        ExecuteTemplate ''index.html'' \<lparr>Host = [], User = [], Password = [], PrivateKey = []\<rparr>
      else ErrorPage ''Templates not loaded'' 500)"

subsection \<open>How a POSIX shell reads a quoted word\<close>

text \<open>
  The command of an upload is run by the remote shell. This is the rule of the POSIX
  shell language for one word (Shell Command Language, 2.2 Quoting), for words without
  backslash and double quotes: a single quote opens a quoted part that runs to the next
  single quote, every byte inside stands for itself and a single quote cannot occur
  inside; outside, a byte stands for itself unless it is special to the shell. The
  flag says whether a quoted part is open; a word that leaves it open, or has a
  special byte outside quotes, is not one word (\<open>None\<close>).
\<close>

definition sh_special :: "char list" where
  "sh_special = CHR 0x22 # CHR 0x5C # CHR 0x09 # CHR 0x0A # '' |&;<>()$`*?[#~=%''"

fun sh_word :: "bool \<Rightarrow> string \<Rightarrow> string option" where
  "sh_word quoted [] = (if quoted then None else Some [])"
| "sh_word quoted (c # cs) =
     (if c = squote then sh_word (\<not> quoted) cs
      else if quoted \<or> c \<notin> set sh_special then map_option (Cons c) (sh_word quoted cs)
      else None)"

subsection \<open>Library answers for the examples\<close>

text \<open>
  In \<open>env_ok\<close> every call on the SSH client succeeds, the key \<^verbatim>\<open>PEM\<close> parses,
  \<^verbatim>\<open>aGVsbG8=\<close> is the base64 of \<^verbatim>\<open>hello\<close> and \<^verbatim>\<open>UEVN\<close> that of \<^verbatim>\<open>PEM\<close>. In \<open>lib_ok\<close> the token \<^verbatim>\<open>TOKEN\<close> verifies under
  the key \<^verbatim>\<open>KEY\<close> and carries a payload with a user, a host, a password and a key.
\<close>

definition env_ok :: "string env" where
  "env_ok =
     \<lparr>parsePrivateKey = (\<lambda>k. if k = ''PEM'' then Inr ''signer'' else Inl ''ssh: no key found''),
      dialErr = (\<lambda>addr user auth. None),
      newSessionErr = None, requestPtyErr = None, stdinPipeErr = None, stdoutPipeErr = None,
      stderrPipeErr = None, shellErr = None, startErr = (\<lambda>cmd. None),
      stdinWriteErr = (\<lambda>b. None), waitErr = None, stderrData = [],
      stdoutChunks = [''data''], responseWriteErr = (\<lambda>b. None),
      decodeString = (\<lambda>s. if s = ''aGVsbG8='' then Inr ''hello''
                           else if s = ''UEVN'' then Inr ''PEM''
                           else Inl ''illegal base64 data''),
      decodeStringBytes = (\<lambda>s. []),
      filepathBase = (\<lambda>p. rev (takeWhile (\<lambda>c. c \<noteq> CHR ''/'') (rev p)))\<rparr>"

definition lib_ok :: "string codec" where
  "lib_ok =
     \<lparr>decodeKeys = (\<lambda>k. if k = ''KEY'' then Inr [''key''] else Inl ''bad key''),
      verifyAndDecrypt = (\<lambda>tok key. if tok = ''TOKEN'' \<and> key = [''key''] then Some ''B64''
                                     else None),
      stdDecodeString = (\<lambda>s. if s = ''B64'' then Inr ''username=alice&hostname=h1&password=pw&privatekey=UEVN''
                              else Inl ''illegal base64 data''),
      parseQuery = (\<lambda>s. if s = ''username=alice&hostname=h1&password=pw&privatekey=UEVN''
                         then Inr (\<lambda>k. if k = ''username'' then [''alice'']
                                       else if k = ''hostname'' then [''h1'']
                                       else if k = ''password'' then [''pw'']
                                       else if k = ''privatekey'' then [''UEVN''] else [])
                         else Inl ''invalid query'')\<rparr>"

text \<open>A query string with the given parameters, as \<^verbatim>\<open>r.URL.Query().Get\<close> reads it.\<close>

definition query_of :: "(string \<times> string) list \<Rightarrow> string \<Rightarrow> string" where
  "query_of kvs k = (case map_of kvs k of None \<Rightarrow> [] | Some v \<Rightarrow> v)"

text \<open>What a frame \<^verbatim>\<open>{"type":"resize","rows":r,"cols":c}\<close> decodes to.\<close>

definition resize_msg :: "int \<Rightarrow> int \<Rightarrow> WSMessage" where
  "resize_msg r c = \<lparr>Type = ''resize'', Data = [], Cols = c, Rows = r, Filename = [], Size = 0\<rparr>"

text \<open>What a frame \<^verbatim>\<open>{"type":"upload","filename":f,"data":d,"size":n}\<close> decodes to.\<close>

definition upload_msg :: "string \<Rightarrow> string \<Rightarrow> int \<Rightarrow> WSMessage" where
  "upload_msg f d n = \<lparr>Type = ''upload'', Data = d, Cols = 0, Rows = 0, Filename = f, Size = n\<rparr>"

subsection \<open>Opening a session over the websocket\<close>

text \<open>\<^verbatim>\<open>strings.Split\<close> with a separator of one byte: the parts between the separators.\<close>

fun stringsSplit :: "char \<Rightarrow> string \<Rightarrow> string list" where
  "stringsSplit c [] = [[]]"
| "stringsSplit c (x # xs) =
     (if x = c then [] # stringsSplit c xs
      else (case stringsSplit c xs of
              [] \<Rightarrow> [[x]]
            | p # ps \<Rightarrow> (x # p) # ps))"





section \<open>Properties\<close>

subsection \<open>Download authorization\<close>

lemma take_prefix_iff: "(length p \<le> length s \<and> take (length p) s = p) \<longleftrightarrow> prefix p s"
  by (metis prefix_def append_eq_conv_conj take_is_prefix prefix_length_le)

lemma isAllowed_prefix: "isAllowed ps s \<longleftrightarrow> (\<exists>p \<in> set ps. prefix p s)"
  by (induction ps) (auto simp: take_prefix_iff)

lemma isAllowed_handler_prefix: "isAllowed_handler ps s \<longleftrightarrow> (\<exists>p \<in> set ps. prefix p s)"
  by (induction ps) auto

lemma isAllowed_allowedPaths:
  "isAllowed allowedPaths s \<longleftrightarrow> prefix ''/home/'' s \<or> prefix ''/opt/'' s \<or> prefix ''/tmp/'' s"
  by (simp add: isAllowed_prefix allowedPaths_def)

lemma isAllowed_handler_allowedPaths:
  "isAllowed_handler allowedPaths s \<longleftrightarrow> prefix ''/home/'' s \<or> prefix ''/opt/'' s \<or> prefix ''/tmp/'' s"
  by (simp add: isAllowed_handler_prefix allowedPaths_def)

lemma downloadFileViaSSH_denied_iff:
  "snd (downloadFileViaSSH env p h u pw k) = Inl AccessDenied \<longleftrightarrow> \<not> isAllowed allowedPaths p"
  by (auto simp: downloadFileViaSSH_def downloadSession_def Let_def
      split: sum.splits option.splits prod.splits)

lemma downloadFileViaSSH_denied_events:
  "\<not> isAllowed allowedPaths p \<Longrightarrow> downloadFileViaSSH env p h u pw k = ([], Inl AccessDenied)"
  by (simp add: downloadFileViaSSH_def)

lemma downloadHandler_denied_iff:
  "downloadHandler env q = [HttpError accessDeniedBody 403] \<longleftrightarrow>
     q ''host'' \<noteq> [] \<and> q ''user'' \<noteq> [] \<and> q ''path'' \<noteq> [] \<and> \<not> isAllowed_handler allowedPaths (q ''path'')"
  by (auto simp: downloadHandler_def Let_def accessDeniedBody_def
      split: sum.splits option.splits prod.splits)

lemma downloadHandler_missing:
  "q ''host'' = [] \<or> q ''user'' = [] \<or> q ''path'' = [] \<Longrightarrow>
   downloadHandler env q = [HttpError ''Missing required parameters'' 400]"
  by (auto simp: downloadHandler_def Let_def)

lemma downloadHandler_no_remote:
  "\<not> isAllowed_handler allowedPaths (q ''path'') \<Longrightarrow> \<forall>e \<in> set (downloadHandler env q). \<not> is_remote e"
  by (auto simp: downloadHandler_def Let_def)

text \<open>
  C1 (as amended). \<^verbatim>\<open>downloadFileViaSSH\<close> answers access-denied exactly when the path
  starts with none of \<^verbatim>\<open>/home/\<close>, \<^verbatim>\<open>/opt/\<close>, \<^verbatim>\<open>/tmp/\<close>, and has then made no call at all.
  \<^verbatim>\<open>downloadHandler\<close> answers 403 access-denied exactly for such a path when host, user
  and path are all present; when one of them is missing its whole answer is 400
  "Missing required parameters", whatever the path; for any path without one of the
  prefixes, present parameters or not, none of its events is a call on the SSH client.
\<close>

theorem download_authorization:
  "(snd (downloadFileViaSSH env remotePath host user password privateKey) = Inl AccessDenied
      \<longleftrightarrow> \<not> (prefix ''/home/'' remotePath \<or> prefix ''/opt/'' remotePath \<or> prefix ''/tmp/'' remotePath))
   \<and> (snd (downloadFileViaSSH env remotePath host user password privateKey) = Inl AccessDenied
      \<longrightarrow> fst (downloadFileViaSSH env remotePath host user password privateKey) = [])
   \<and> (q ''host'' \<noteq> [] \<and> q ''user'' \<noteq> [] \<and> q ''path'' \<noteq> [] \<longrightarrow>
        (downloadHandler env q = [HttpError accessDeniedBody 403]
           \<longleftrightarrow> \<not> (prefix ''/home/'' (q ''path'') \<or> prefix ''/opt/'' (q ''path'')
                   \<or> prefix ''/tmp/'' (q ''path''))))
   \<and> (\<not> (prefix ''/home/'' (q ''path'') \<or> prefix ''/opt/'' (q ''path'') \<or> prefix ''/tmp/'' (q ''path''))
        \<longrightarrow> (\<forall>e \<in> set (downloadHandler env q). \<not> is_remote e))
   \<and> (q ''host'' = [] \<or> q ''user'' = [] \<or> q ''path'' = [] \<longrightarrow>
        downloadHandler env q = [HttpError ''Missing required parameters'' 400])"
proof -
  have a: "snd (downloadFileViaSSH env remotePath host user password privateKey) = Inl AccessDenied
      \<longleftrightarrow> \<not> (prefix ''/home/'' remotePath \<or> prefix ''/opt/'' remotePath \<or> prefix ''/tmp/'' remotePath)"
    by (simp only: downloadFileViaSSH_denied_iff isAllowed_allowedPaths)
  have b: "snd (downloadFileViaSSH env remotePath host user password privateKey) = Inl AccessDenied
      \<longrightarrow> fst (downloadFileViaSSH env remotePath host user password privateKey) = []"
    using downloadFileViaSSH_denied_events [of remotePath env host user password privateKey]
    by (simp add: downloadFileViaSSH_denied_iff)
  have c: "q ''host'' \<noteq> [] \<and> q ''user'' \<noteq> [] \<and> q ''path'' \<noteq> [] \<longrightarrow>
        (downloadHandler env q = [HttpError accessDeniedBody 403]
           \<longleftrightarrow> \<not> (prefix ''/home/'' (q ''path'') \<or> prefix ''/opt/'' (q ''path'')
                   \<or> prefix ''/tmp/'' (q ''path'')))"
    by (simp only: downloadHandler_denied_iff isAllowed_handler_allowedPaths) blast
  have d: "\<not> (prefix ''/home/'' (q ''path'') \<or> prefix ''/opt/'' (q ''path'') \<or> prefix ''/tmp/'' (q ''path''))
        \<longrightarrow> (\<forall>e \<in> set (downloadHandler env q). \<not> is_remote e)"
    using downloadHandler_no_remote [of q env] by (simp only: isAllowed_handler_allowedPaths) blast
  have e: "q ''host'' = [] \<or> q ''user'' = [] \<or> q ''path'' = [] \<longrightarrow>
        downloadHandler env q = [HttpError ''Missing required parameters'' 400]"
    by (simp add: downloadHandler_missing)
  from a b c d e show ?thesis by blast
qed

theorem download_authorization_witness:
  "downloadFileViaSSH env_ok ''/etc/passwd'' ''h1'' ''alice'' ''pw'' [] = ([], Inl AccessDenied)
   \<and> snd (downloadFileViaSSH env_ok ''/tmp/a.txt'' ''h1'' ''alice'' ''pw'' []) \<noteq> Inl AccessDenied
   \<and> downloadHandler env_ok
        (query_of [(''host'', ''h1''), (''user'', ''alice''), (''path'', ''/etc/passwd'')])
       = [HttpError accessDeniedBody 403]
   \<and> downloadHandler env_ok
        (query_of [(''host'', ''h1''), (''user'', ''alice''), (''path'', ''/tmp/a.txt'')])
       \<noteq> [HttpError accessDeniedBody 403]
   \<and> downloadHandler env_ok (query_of [(''host'', ''h1''), (''path'', ''/tmp/a.txt'')])
       = [HttpError ''Missing required parameters'' 400]"
  using download_authorization [of env_ok "''/etc/passwd''" "''h1''" "''alice''" "''pw''" "[]"
          "query_of [(''host'', ''h1''), (''user'', ''alice''), (''path'', ''/etc/passwd'')]"]
        download_authorization [of env_ok "''/tmp/a.txt''" "''h1''" "''alice''" "''pw''" "[]"
          "query_of [(''host'', ''h1''), (''user'', ''alice''), (''path'', ''/tmp/a.txt'')]"]
        download_authorization [of env_ok "''/tmp/a.txt''" "''h1''" "''alice''" "''pw''" "[]"
          "query_of [(''host'', ''h1''), (''path'', ''/tmp/a.txt'')]"]
  by (simp add: query_of_def prod_eq_iff)

text \<open>
  C1 as stated fails at the handler: a request for \<^verbatim>\<open>/etc/passwd\<close> without a host is
  answered 400 "Missing required parameters", not access-denied.
\<close>

theorem download_missing_host_counterexample:
  "\<not> prefix ''/home/'' ''/etc/passwd'' \<and> \<not> prefix ''/opt/'' ''/etc/passwd''
   \<and> \<not> prefix ''/tmp/'' ''/etc/passwd''
   \<and> downloadHandler env_ok (query_of [(''user'', ''alice''), (''path'', ''/etc/passwd'')])
       = [HttpError ''Missing required parameters'' 400]
   \<and> downloadHandler env_ok (query_of [(''user'', ''alice''), (''path'', ''/etc/passwd'')])
       \<noteq> [HttpError accessDeniedBody 403]"
  by (simp add: downloadHandler_def query_of_def)

subsection \<open>Terminal geometry\<close>

lemma geometry_append: "geometry (xs @ ys) = foldl geometry_step (geometry xs) ys"
  by (simp add: geometry_def)

lemma uint32_small: "0 \<le> x \<Longrightarrow> x < 4294967296 \<Longrightarrow> uint32 x = x"
  by (simp add: uint32_def)

lemma sessionSetup_geometry:
  "sessionSetup env = (evs, True) \<Longrightarrow> foldl geometry_step g evs = Some (40, 80)"
  by (auto simp: sessionSetup_def uint32_def split: option.splits)

lemma handleSSHConnection_geometry:
  assumes "handleSSHConnection env host user password privateKey = (evs, True)"
  shows "geometry evs = Some (40, 80)"
  using assms
  by (auto simp: handleSSHConnection_def geometry_def Let_def sessionSetup_geometry
      split: sum.splits option.splits prod.splits bool.splits)

lemma controlWorker_geometry:
  "1 \<le> h \<Longrightarrow> 1 \<le> w \<Longrightarrow>
   (\<forall>msg. Message (Some msg) \<in> set frames \<and> Type msg = ''resize''
      \<longrightarrow> 1 \<le> Rows msg \<and> Rows msg < 4294967296 \<and> 1 \<le> Cols msg \<and> Cols msg < 4294967296) \<Longrightarrow>
   \<exists>h' w'. foldl geometry_step (Some (h, w)) (controlWorker env frames) = Some (h', w')
     \<and> 1 \<le> h' \<and> 1 \<le> w'"
proof (induction frames arbitrary: h w)
  case Nil
  then show ?case by simp
next
  case (Cons f frames)
  have rest: "\<forall>msg. Message (Some msg) \<in> set frames \<and> Type msg = ''resize''
      \<longrightarrow> 1 \<le> Rows msg \<and> Rows msg < 4294967296 \<and> 1 \<le> Cols msg \<and> Cols msg < 4294967296"
    using Cons.prems(3) by simp
  show ?case
  proof (cases f)
    case ReadError
    with Cons.prems show ?thesis by simp
  next
    case (Message m)
    show ?thesis
    proof (cases m)
      case None
      with Message Cons.IH [OF Cons.prems(1,2) rest] show ?thesis by simp
    next
      case (Some msg)
      show ?thesis
      proof (cases "Type msg = ''resize''")
        case True
        with Cons.prems(3) Message Some
        have r: "1 \<le> Rows msg" "Rows msg < 4294967296"
          and c: "1 \<le> Cols msg" "Cols msg < 4294967296"
          by auto
        then have "uint32 (Rows msg) = Rows msg" "uint32 (Cols msg) = Cols msg"
          by (simp_all add: uint32_small)
        with r c have "1 \<le> uint32 (Rows msg)" "1 \<le> uint32 (Cols msg)"
          by simp_all
        from Cons.IH [OF this rest] True Message Some show ?thesis by simp
      next
        case False
        with Message Some Cons.IH [OF Cons.prems(1,2) rest] Cons.prems(1,2) show ?thesis
          by (auto split: option.splits)
      qed
    qed
  qed
qed

lemma resize_wraps:
  "geometry (fst (handleSSHConnection env_ok ''example.com'' ''bob'' ''pw'' [])
     @ controlWorker env_ok [Message (Some (resize_msg 4294967296 4294967297))]) = Some (0, 1)
   \<and> geometry (fst (handleSSHConnection env_ok ''example.com'' ''bob'' ''pw'' [])
     @ controlWorker env_ok [Message (Some (resize_msg (- 1) 80))]) = Some (4294967295, 80)"
  by (simp add: resize_msg_def geometry_def handleSSHConnection_def authMethods_def
      dialAddress_def containsPort_def sessionSetup_def env_ok_def uint32_def)

text \<open>
  C3 (as amended). A resize message is passed on as it is: the control goroutine calls
  \<^verbatim>\<open>WindowChange\<close> with the rows and cols of the message exactly as decoded, whatever
  their value, and goes on; nothing is rejected or clamped. A session starts at 40
  rows by 80 columns. After a resize message the remote geometry is the rows and cols
  of the message narrowed to 32 bits, as the library sends them. The geometry stays
  at least 1 by 1 as long as every resize message received carries rows and cols
  between 1 and 4294967295.
\<close>

theorem resize_passed_through:
  "(Type msg = ''resize'' \<longrightarrow>
      controlWorker env (Message (Some msg) # rest)
        = WindowChange (Rows msg) (Cols msg) # controlWorker env rest)
   \<and> (handleSSHConnection env host user password privateKey = (evs, True)
      \<longrightarrow> geometry evs = Some (40, 80))
   \<and> (handleSSHConnection env host user password privateKey = (evs, True)
        \<and> Type msg = ''resize''
      \<longrightarrow> geometry (evs @ controlWorker env [Message (Some msg)])
            = Some (Rows msg mod 2 ^ 32, Cols msg mod 2 ^ 32))
   \<and> (handleSSHConnection env host user password privateKey = (evs, True)
        \<and> (\<forall>m. Message (Some m) \<in> set frames \<and> Type m = ''resize''
               \<longrightarrow> 1 \<le> Rows m \<and> Rows m \<le> 4294967295 \<and> 1 \<le> Cols m \<and> Cols m \<le> 4294967295)
      \<longrightarrow> (\<exists>h w. geometry (evs @ controlWorker env frames) = Some (h, w) \<and> 1 \<le> h \<and> 1 \<le> w))"
proof (intro conjI impI)
  assume "Type msg = ''resize''"
  then show "controlWorker env (Message (Some msg) # rest)
        = WindowChange (Rows msg) (Cols msg) # controlWorker env rest"
    by simp
next
  assume "handleSSHConnection env host user password privateKey = (evs, True)"
  then show "geometry evs = Some (40, 80)"
    by (rule handleSSHConnection_geometry)
next
  assume a: "handleSSHConnection env host user password privateKey = (evs, True)
        \<and> Type msg = ''resize''"
  then have g: "geometry evs = Some (40, 80)"
    using handleSSHConnection_geometry by blast
  from a show "geometry (evs @ controlWorker env [Message (Some msg)])
            = Some (Rows msg mod 2 ^ 32, Cols msg mod 2 ^ 32)"
    by (simp add: geometry_append g uint32_def)
next
  assume a: "handleSSHConnection env host user password privateKey = (evs, True)
        \<and> (\<forall>m. Message (Some m) \<in> set frames \<and> Type m = ''resize''
               \<longrightarrow> 1 \<le> Rows m \<and> Rows m \<le> 4294967295 \<and> 1 \<le> Cols m \<and> Cols m \<le> 4294967295)"
  then have g: "geometry evs = Some (40, 80)"
    using handleSSHConnection_geometry by blast
  from a have b: "\<forall>m. Message (Some m) \<in> set frames \<and> Type m = ''resize''
      \<longrightarrow> 1 \<le> Rows m \<and> Rows m < 4294967296 \<and> 1 \<le> Cols m \<and> Cols m < 4294967296"
    by auto
  have "\<exists>h w. foldl geometry_step (Some (40, 80)) (controlWorker env frames) = Some (h, w)
     \<and> 1 \<le> h \<and> 1 \<le> w"
    using b by (intro controlWorker_geometry) simp_all
  then show "\<exists>h w. geometry (evs @ controlWorker env frames) = Some (h, w) \<and> 1 \<le> h \<and> 1 \<le> w"
    by (simp add: geometry_append g)
qed

theorem resize_passed_through_witness:
  "controlWorker env_ok [Message (Some (resize_msg 24 100))] = [WindowChange 24 100]
   \<and> geometry (fst (handleSSHConnection env_ok ''example.com'' ''bob'' ''pw'' [])) = Some (40, 80)
   \<and> geometry (fst (handleSSHConnection env_ok ''example.com'' ''bob'' ''pw'' [])
        @ controlWorker env_ok [Message (Some (resize_msg 24 100))]) = Some (24, 100)
   \<and> (\<exists>h w. geometry (fst (handleSSHConnection env_ok ''example.com'' ''bob'' ''pw'' [])
        @ controlWorker env_ok [Message (Some (resize_msg 24 100))]) = Some (h, w)
        \<and> 1 \<le> h \<and> 1 \<le> w)"
proof -
  have started: "handleSSHConnection env_ok ''example.com'' ''bob'' ''pw'' []
      = (fst (handleSSHConnection env_ok ''example.com'' ''bob'' ''pw'' []), True)"
    by (simp add: handleSSHConnection_def authMethods_def dialAddress_def containsPort_def
        sessionSetup_def env_ok_def)
  from resize_passed_through [of "resize_msg 24 100" env_ok "[]" "''example.com''" "''bob''"
      "''pw''" "[]" "fst (handleSSHConnection env_ok ''example.com'' ''bob'' ''pw'' [])"
      "[Message (Some (resize_msg 24 100))]"] started
  show ?thesis
    by (simp add: resize_msg_def)
qed

text \<open>
  C3 as stated fails: the frame \<^verbatim>\<open>{"type":"resize"}\<close>, whose rows and cols decode to 0, is
  neither dropped nor clamped, and leaves the session at 0 by 0.
\<close>

theorem resize_zero_counterexample:
  "controlWorker env_ok [Message (Some (resize_msg 0 0))] = [WindowChange 0 0]
   \<and> geometry (fst (handleSSHConnection env_ok ''example.com'' ''bob'' ''pw'' [])
        @ controlWorker env_ok [Message (Some (resize_msg 0 0))]) = Some (0, 0)"
  by (simp add: resize_msg_def geometry_def handleSSHConnection_def authMethods_def
      dialAddress_def containsPort_def sessionSetup_def env_ok_def uint32_def)

text \<open>
  C8. A resize message with rows 40 and cols 120 makes the control goroutine issue one
  \<^verbatim>\<open>WindowChange\<close> call, with (40, 120), before it reads the next frame.
\<close>

theorem resize_40_120:
  "controlWorker env (Message (Some (msg\<lparr>Type := ''resize'', Rows := 40, Cols := 120\<rparr>)) # rest)
     = WindowChange 40 120 # controlWorker env rest
   \<and> controlWorker env [Message (Some (msg\<lparr>Type := ''resize'', Rows := 40, Cols := 120\<rparr>))]
     = [WindowChange 40 120]"
  by simp

subsection \<open>Authentication methods and the address dialed\<close>






lemma downloadFileViaSSH_dials:
  "isAllowed allowedPaths remotePath \<Longrightarrow> authMethods env password privateKey = Inr auth \<Longrightarrow>
   \<exists>rest. fst (downloadFileViaSSH env remotePath host user password privateKey)
     = Dial (dialAddress host) user auth # rest"
  by (auto simp: downloadFileViaSSH_def Let_def split: option.splits prod.splits)



subsection \<open>The default port\<close>

lemma containsPort_from_skip:
  "CHR '':'' \<notin> set xs \<Longrightarrow> CHR '']'' \<notin> set xs \<Longrightarrow>
   containsPort_from (xs @ ys) = containsPort_from ys"
  by (induction xs) auto

lemma containsPort_from_no_colon: "CHR '':'' \<notin> set xs \<Longrightarrow> \<not> containsPort_from xs"
  by (induction xs) auto

lemma dialAddress_no_colon: "CHR '':'' \<notin> set host \<Longrightarrow> dialAddress host = host @ '':22''"
  by (simp add: dialAddress_def containsPort_def containsPort_from_no_colon)

lemma dialAddress_bracketed: "dialAddress (h @ '']'') = h @ '']:22''"
  by (simp add: dialAddress_def containsPort_def)

lemma dialAddress_with_port:
  "CHR '':'' \<notin> set p \<Longrightarrow> CHR '']'' \<notin> set p \<Longrightarrow>
   dialAddress (h @ CHR '':'' # p) = h @ CHR '':'' # p"
  using containsPort_from_skip [of "rev p" "CHR '':'' # rev h"]
  by (simp add: dialAddress_def containsPort_def)

text \<open>What \<^verbatim>\<open>containsPort\<close> decides: a colon with no colon and no closing bracket after it.\<close>

lemma containsPort_from_iff:
  "containsPort_from xs \<longleftrightarrow>
     (\<exists>a b. xs = a @ CHR '':'' # b \<and> CHR '':'' \<notin> set a \<and> CHR '']'' \<notin> set a)"
proof (induction xs)
  case Nil
  then show ?case by simp
next
  case (Cons c cs)
  show ?case
  proof (cases "c = CHR '':''")
    case True
    then have "c # cs = [] @ CHR '':'' # cs" by simp
    then have "\<exists>a b. c # cs = a @ CHR '':'' # b \<and> CHR '':'' \<notin> set a \<and> CHR '']'' \<notin> set a"
      by (metis empty_iff list.set(1))
    with True show ?thesis by simp
  next
    case nc: False
    show ?thesis
    proof (cases "c = CHR '']''")
      case True
      have "\<not> (\<exists>a b. c # cs = a @ CHR '':'' # b \<and> CHR '':'' \<notin> set a \<and> CHR '']'' \<notin> set a)"
      proof
        assume "\<exists>a b. c # cs = a @ CHR '':'' # b \<and> CHR '':'' \<notin> set a \<and> CHR '']'' \<notin> set a"
        then obtain a b where ab: "c # cs = a @ CHR '':'' # b" "CHR '']'' \<notin> set a" by blast
        then show False using True nc by (cases a) auto
      qed
      with True nc show ?thesis by simp
    next
      case nb: False
      have "(\<exists>a b. c # cs = a @ CHR '':'' # b \<and> CHR '':'' \<notin> set a \<and> CHR '']'' \<notin> set a)
          \<longleftrightarrow> (\<exists>a b. cs = a @ CHR '':'' # b \<and> CHR '':'' \<notin> set a \<and> CHR '']'' \<notin> set a)"
      proof
        assume "\<exists>a b. c # cs = a @ CHR '':'' # b \<and> CHR '':'' \<notin> set a \<and> CHR '']'' \<notin> set a"
        then obtain a b where ab: "c # cs = a @ CHR '':'' # b" "CHR '':'' \<notin> set a" "CHR '']'' \<notin> set a"
          by blast
        with nc obtain a' where a': "a = c # a'" by (cases a) auto
        with ab have "cs = a' @ CHR '':'' # b" "CHR '':'' \<notin> set a'" "CHR '']'' \<notin> set a'" by auto
        then show "\<exists>a b. cs = a @ CHR '':'' # b \<and> CHR '':'' \<notin> set a \<and> CHR '']'' \<notin> set a" by blast
      next
        assume "\<exists>a b. cs = a @ CHR '':'' # b \<and> CHR '':'' \<notin> set a \<and> CHR '']'' \<notin> set a"
        then obtain a b where ab: "cs = a @ CHR '':'' # b" "CHR '':'' \<notin> set a" "CHR '']'' \<notin> set a"
          by blast
        then have "c # cs = (c # a) @ CHR '':'' # b" "CHR '':'' \<notin> set (c # a)" "CHR '']'' \<notin> set (c # a)"
          using nc nb by auto
        then show "\<exists>a b. c # cs = a @ CHR '':'' # b \<and> CHR '':'' \<notin> set a \<and> CHR '']'' \<notin> set a"
          by blast
      qed
      with nc nb Cons.IH show ?thesis by simp
    qed
  qed
qed

lemma containsPort_iff:
  "containsPort host \<longleftrightarrow>
     (\<exists>h p. host = h @ CHR '':'' # p \<and> CHR '':'' \<notin> set p \<and> CHR '']'' \<notin> set p)"
proof
  assume "containsPort host"
  then obtain a b where ab: "rev host = a @ CHR '':'' # b" "CHR '':'' \<notin> set a" "CHR '']'' \<notin> set a"
    by (auto simp: containsPort_def containsPort_from_iff)
  then have "host = rev b @ CHR '':'' # rev a"
    by (metis rev_append rev.simps(2) rev_rev_ident append.assoc append_Cons append_Nil)
  with ab show "\<exists>h p. host = h @ CHR '':'' # p \<and> CHR '':'' \<notin> set p \<and> CHR '']'' \<notin> set p"
    by (metis set_rev)
next
  assume "\<exists>h p. host = h @ CHR '':'' # p \<and> CHR '':'' \<notin> set p \<and> CHR '']'' \<notin> set p"
  then obtain h p where hp: "host = h @ CHR '':'' # p" "CHR '':'' \<notin> set p" "CHR '']'' \<notin> set p"
    by blast
  then have "rev host = rev p @ CHR '':'' # rev h" by simp
  with hp show "containsPort host"
    unfolding containsPort_def containsPort_from_iff by (metis set_rev)
qed

text \<open>
  C7, at the host \<^verbatim>\<open>::1\<close> (the IPv6 loopback address, which carries no port):
  \<^verbatim>\<open>containsPort\<close> answers true at its last colon, so no port is appended and
  \<^verbatim>\<open>handleSSHConnection\<close> dials \<^verbatim>\<open>::1\<close> as it is.
\<close>

theorem bare_ipv6_dialed_without_port:
  "containsPort ''::1'' \<and> dialAddress ''::1'' = ''::1''
   \<and> hd (fst (handleSSHConnection env_ok ''::1'' ''bob'' ''pw'' []))
       = Dial ''::1'' ''bob'' [AuthPassword ''pw'']"
  by (simp add: dialAddress_def containsPort_def handleSSHConnection_def authMethods_def
      sessionSetup_def env_ok_def)

subsection \<open>Upload\<close>

lemma handleFileUpload_ok:
  assumes "decodeString env (Data msg) = Inr P"
    and "newSessionErr env = None" and "stdinPipeErr env = None" and "stderrPipeErr env = None"
    and "startErr env (uploadCommand (''/tmp/'' @ Filename msg)) = None"
    and "stdinWriteErr env P = None" and "waitErr env = None"
  shows "handleFileUpload env msg =
    [NewSession, StdinPipe, StderrPipe, Start (uploadCommand (''/tmp/'' @ Filename msg)),
     StdinWrite P, StdinClose, Wait,
     WsWriteJSON \<lparr>rType = ''upload_response'', Success = True,
                  Path = ''/tmp/'' @ Filename msg, Error = []\<rparr>,
     SessionClose]"
  using assms
  by (simp add: handleFileUpload_def handleFileUpload_session_def sendUploadResponse_def Let_def)

lemma handleFileUpload_writes:
  assumes "decodeString env (Data msg) = Inr P"
    and "newSessionErr env = None" and "stdinPipeErr env = None" and "stderrPipeErr env = None"
    and "startErr env (uploadCommand (''/tmp/'' @ Filename msg)) = None"
  shows "StdinWrite P \<in> set (handleFileUpload env msg)"
  using assms
  by (simp add: handleFileUpload_def handleFileUpload_session_def sendUploadResponse_def Let_def
      split: option.splits)

lemma sh_word_quoted: "squote \<notin> set p \<Longrightarrow> sh_word True (p @ [squote]) = Some p"
  by (induction p) auto

lemma sh_word_literal: "squote \<notin> set p \<Longrightarrow> sh_word False (squote # p @ [squote]) = Some p"
  by (simp add: sh_word_quoted)

lemma sh_word_no_squote: "sh_word b w = Some r \<Longrightarrow> squote \<notin> set r"
  by (induction w arbitrary: b r) (auto split: if_splits)

lemma sh_word_quote_lost: "squote \<in> set p \<Longrightarrow> sh_word False (squote # p @ [squote]) \<noteq> Some p"
  using sh_word_no_squote by blast

lemma upload_notes_txt:
  "handleFileUpload env_ok (upload_msg ''notes.txt'' ''aGVsbG8='' 5) =
    [NewSession, StdinPipe, StderrPipe, Start (''cat > '' @ [squote] @ ''/tmp/notes.txt'' @ [squote]),
     StdinWrite ''hello'', StdinClose, Wait,
     WsWriteJSON \<lparr>rType = ''upload_response'', Success = True,
                  Path = ''/tmp/notes.txt'', Error = []\<rparr>,
     SessionClose]"
  by (simp add: handleFileUpload_def handleFileUpload_session_def sendUploadResponse_def
      upload_msg_def env_ok_def uploadCommand_def)

text \<open>
  C4, at the filename \<^verbatim>\<open>it's.txt\<close>: the command started is \<^verbatim>\<open>cat > '/tmp/it's.txt'\<close>. The
  quote of the filename closes the quoted part, the last quote opens one that never
  closes: the shell does not read the word after \<^verbatim>\<open>cat >\<close> as the path
  \<^verbatim>\<open>/tmp/it's.txt\<close>, nor as any one word.
\<close>

theorem upload_filename_with_quote:
  "Start (''cat > '' @ [squote] @ ''/tmp/it'' @ [squote] @ ''s.txt'' @ [squote])
     \<in> set (handleFileUpload env_ok (upload_msg (''it'' @ [squote] @ ''s.txt'') ''aGVsbG8='' 5))
   \<and> sh_word False ([squote] @ ''/tmp/it'' @ [squote] @ ''s.txt'' @ [squote]) = None"
  by (simp add: handleFileUpload_def handleFileUpload_session_def sendUploadResponse_def
      upload_msg_def env_ok_def uploadCommand_def squote_def sh_special_def)

lemma copyToStdin_ok:
  "\<forall>c \<in> set chunks. stdinWriteErr env c = None \<Longrightarrow>
   copyToStdin env chunks = (map StdinWrite chunks, None)"
  by (induction chunks) auto

text \<open>
  C9 (as amended). The inline upload has no ceiling: whatever the length of the decoded
  payload and whatever the size field of the message, the payload is written whole to
  the command's input once the command has started. The streaming upload has none
  either, and writes the file chunk by chunk, in order.
\<close>

theorem upload_no_ceiling:
  "(decodeString env (Data msg) = Inr P \<and> newSessionErr env = None \<and> stdinPipeErr env = None
      \<and> stderrPipeErr env = None
      \<and> startErr env (uploadCommand (''/tmp/'' @ Filename msg)) = None
      \<longrightarrow> StdinWrite P \<in> set (handleFileUpload env msg))
   \<and> handleFileUpload env (msg\<lparr>Size := n\<rparr>) = handleFileUpload env msg
   \<and> (authMethods env password privateKey = Inr auth
      \<and> dialErr env (dialAddress host) user auth = None
      \<and> newSessionErr env = None \<and> stdinPipeErr env = None \<and> stderrPipeErr env = None
      \<and> startErr env (uploadCommand (''/tmp/'' @ filename)) = None
      \<and> (\<forall>c \<in> set file. stdinWriteErr env c = None) \<and> waitErr env = None
      \<longrightarrow> uploadFileViaSSH env file filename host user password privateKey
          = ([Dial (dialAddress host) user auth, NewSession, StdinPipe, StderrPipe,
              Start (uploadCommand (''/tmp/'' @ filename))]
               @ map StdinWrite file @ [StdinClose, Wait, SessionClose, ConnClose],
             Inr (''/tmp/'' @ filename)))"
proof (intro conjI impI)
  assume "decodeString env (Data msg) = Inr P \<and> newSessionErr env = None \<and> stdinPipeErr env = None
      \<and> stderrPipeErr env = None
      \<and> startErr env (uploadCommand (''/tmp/'' @ Filename msg)) = None"
  then show "StdinWrite P \<in> set (handleFileUpload env msg)"
    by (intro handleFileUpload_writes) simp_all
next
  show "handleFileUpload env (msg\<lparr>Size := n\<rparr>) = handleFileUpload env msg"
    by (simp add: handleFileUpload_def Let_def cong: sum.case_cong)
next
  assume a: "authMethods env password privateKey = Inr auth
      \<and> dialErr env (dialAddress host) user auth = None
      \<and> newSessionErr env = None \<and> stdinPipeErr env = None \<and> stderrPipeErr env = None
      \<and> startErr env (uploadCommand (''/tmp/'' @ filename)) = None
      \<and> (\<forall>c \<in> set file. stdinWriteErr env c = None) \<and> waitErr env = None"
  then have c: "copyToStdin env file = (map StdinWrite file, None)"
    by (intro copyToStdin_ok) simp
  from a c show "uploadFileViaSSH env file filename host user password privateKey
          = ([Dial (dialAddress host) user auth, NewSession, StdinPipe, StderrPipe,
              Start (uploadCommand (''/tmp/'' @ filename))]
               @ map StdinWrite file @ [StdinClose, Wait, SessionClose, ConnClose],
             Inr (''/tmp/'' @ filename))"
    by (simp add: uploadFileViaSSH_def uploadSession_def Let_def)
qed

theorem upload_no_ceiling_witness:
  "StdinWrite ''hello'' \<in> set (handleFileUpload env_ok (upload_msg ''notes.txt'' ''aGVsbG8='' 1))
   \<and> handleFileUpload env_ok ((upload_msg ''notes.txt'' ''aGVsbG8='' 1)\<lparr>Size := 5\<rparr>)
       = handleFileUpload env_ok (upload_msg ''notes.txt'' ''aGVsbG8='' 1)
   \<and> uploadFileViaSSH env_ok [''he'', ''llo''] ''notes.txt'' ''example.com'' ''bob'' ''pw'' []
       = ([Dial ''example.com:22'' ''bob'' [AuthPassword ''pw''], NewSession, StdinPipe,
           StderrPipe, Start (uploadCommand ''/tmp/notes.txt''), StdinWrite ''he'',
           StdinWrite ''llo'', StdinClose, Wait, SessionClose, ConnClose],
          Inr ''/tmp/notes.txt'')"
proof -
  have d: "dialAddress ''example.com'' = ''example.com:22''"
    by (simp add: dialAddress_def containsPort_def)
  have a: "authMethods env_ok ''pw'' [] = Inr [AuthPassword ''pw'']"
    by (simp add: authMethods_def)
  from upload_no_ceiling [of env_ok "upload_msg ''notes.txt'' ''aGVsbG8='' 1" "''hello''" 5
      "''pw''" "[]" "[AuthPassword ''pw'']" "''example.com''" "''bob''" "''notes.txt''"
      "[''he'', ''llo'']"] d a
  show ?thesis
    by (simp add: env_ok_def upload_msg_def)
qed

text \<open>
  C9 as stated fails: no length is a ceiling for the inline payload. Whatever \<open>N\<close>, a
  payload longer than \<open>N\<close> is written to the remote command.
\<close>

theorem inline_upload_ceiling_counterexample:
  "\<not> (\<exists>N. \<forall>(env :: string env) msg P.
          decodeString env (Data msg) = Inr P \<and> N < length P
            \<longrightarrow> StdinWrite P \<notin> set (handleFileUpload env msg))"
proof
  assume "\<exists>N. \<forall>(env :: string env) msg P.
          decodeString env (Data msg) = Inr P \<and> N < length P
            \<longrightarrow> StdinWrite P \<notin> set (handleFileUpload env msg)"
  then obtain N where ceiling: "\<forall>(env :: string env) msg P.
          decodeString env (Data msg) = Inr P \<and> N < length P
            \<longrightarrow> StdinWrite P \<notin> set (handleFileUpload env msg)"
    by blast
  define P where "P = replicate (Suc N) (CHR ''a'')"
  define env where "env = env_ok\<lparr>decodeString := (\<lambda>s. Inr P)\<rparr>"
  define msg where "msg = upload_msg ''big.bin'' ''YWFh'' 0"
  have "decodeString env (Data msg) = Inr P" and "N < length P"
    by (simp_all add: env_def P_def)
  with ceiling have "StdinWrite P \<notin> set (handleFileUpload env msg)"
    by blast
  moreover have "StdinWrite P \<in> set (handleFileUpload env msg)"
    by (intro handleFileUpload_writes) (simp_all add: env_def env_ok_def)
  ultimately show False by contradiction
qed

subsection \<open>The access token codec\<close>

lemma decryptAccess_Inr:
  assumes "decryptAccess lib fernetKey encrypted = Inr creds"
  shows "\<exists>key token_64 token vs.
           decodeKeys lib fernetKey = Inr key
         \<and> verifyAndDecrypt lib encrypted key = Some token_64
         \<and> stdDecodeString lib token_64 = Inr token
         \<and> parseQuery lib token = Inr vs
         \<and> creds = \<lparr>Host = valuesGet vs ''hostname'', User = valuesGet vs ''username'',
                     Password = [], PrivateKey = valuesGet vs ''privatekey''\<rparr>"
  using assms
  by (auto simp: decryptAccess_def split: if_splits sum.splits option.splits)

text \<open>
  C5. Whatever makes \<^verbatim>\<open>decryptAccess\<close> fail (no key, a key that does not decode, a token that
  does not verify or decrypt, a payload that is not base64 or not a query string), the
  response of \<^verbatim>\<open>indexHandler\<close> is the same: 400 "Invalid access token". When it succeeds,
  the token verified and decrypted under the configured key, and the credentials hold
  the values of \<^verbatim>\<open>username\<close>, \<^verbatim>\<open>hostname\<close> and \<^verbatim>\<open>privatekey\<close> of the decoded payload.
\<close>

theorem token_decoding:
  "(q ''access'' \<noteq> [] \<and> decryptAccess lib fernetKey (q ''access'') = Inl err \<longrightarrow>
      indexHandler lib fernetKey tmplLoaded q = ErrorPage ''Invalid access token'' 400)
   \<and> (decryptAccess lib fernetKey encrypted = Inr creds \<longrightarrow>
        (\<exists>key token_64 token vs.
           decodeKeys lib fernetKey = Inr key
         \<and> verifyAndDecrypt lib encrypted key = Some token_64
         \<and> stdDecodeString lib token_64 = Inr token
         \<and> parseQuery lib token = Inr vs
         \<and> User creds = valuesGet vs ''username''
         \<and> Host creds = valuesGet vs ''hostname''
         \<and> PrivateKey creds = valuesGet vs ''privatekey''))"
proof (intro conjI impI)
  assume "q ''access'' \<noteq> [] \<and> decryptAccess lib fernetKey (q ''access'') = Inl err"
  then show "indexHandler lib fernetKey tmplLoaded q = ErrorPage ''Invalid access token'' 400"
    by (simp add: indexHandler_def)
next
  assume "decryptAccess lib fernetKey encrypted = Inr creds"
  from decryptAccess_Inr [OF this]
  show "\<exists>key token_64 token vs.
           decodeKeys lib fernetKey = Inr key
         \<and> verifyAndDecrypt lib encrypted key = Some token_64
         \<and> stdDecodeString lib token_64 = Inr token
         \<and> parseQuery lib token = Inr vs
         \<and> User creds = valuesGet vs ''username''
         \<and> Host creds = valuesGet vs ''hostname''
         \<and> PrivateKey creds = valuesGet vs ''privatekey''"
    by auto
qed

lemma decryptAccess_lib_ok:
  "decryptAccess lib_ok ''KEY'' ''TOKEN''
     = Inr \<lparr>Host = ''h1'', User = ''alice'', Password = [], PrivateKey = ''UEVN''\<rparr>"
  by (simp add: decryptAccess_def lib_ok_def valuesGet_def)

lemma decryptAccess_lib_ok_forged:
  "decryptAccess lib_ok ''KEY'' ''FORGED'' = Inl DecryptFailed"
  by (simp add: decryptAccess_def lib_ok_def)

theorem token_decoding_witness:
  "decryptAccess lib_ok ''KEY'' ''FORGED'' = Inl DecryptFailed
   \<and> decryptAccess lib_ok ''KEY'' ''TOKEN''
       = Inr \<lparr>Host = ''h1'', User = ''alice'', Password = [], PrivateKey = ''UEVN''\<rparr>
   \<and> indexHandler lib_ok ''KEY'' True (query_of [(''access'', ''FORGED'')])
     = ErrorPage ''Invalid access token'' 400
   \<and> (\<exists>key token_64 token vs.
           decodeKeys lib_ok ''KEY'' = Inr key
         \<and> verifyAndDecrypt lib_ok ''TOKEN'' key = Some token_64
         \<and> stdDecodeString lib_ok token_64 = Inr token
         \<and> parseQuery lib_ok token = Inr vs
         \<and> ''alice'' = valuesGet vs ''username''
         \<and> ''h1'' = valuesGet vs ''hostname''
         \<and> ''UEVN'' = valuesGet vs ''privatekey'')"
  using token_decoding [of "query_of [(''access'', ''FORGED'')]" lib_ok "''KEY''" DecryptFailed True
      "''TOKEN''" "\<lparr>Host = ''h1'', User = ''alice'', Password = [], PrivateKey = ''UEVN''\<rparr>"]
    decryptAccess_lib_ok decryptAccess_lib_ok_forged
  by (simp add: query_of_def)

subsection \<open>Sessions opened from a token\<close>




lemma stringsSplit_nonempty: "stringsSplit c xs \<noteq> []"
  by (induction xs) (auto split: list.splits)










end
